theory Spec2Isabelle
  imports Main "HOL-Library.AList"
begin

section \<open>Data model of \<open>src/App.tsx\<close>\<close>

text \<open>
  The component keeps all of its state in React hooks. The model is a record of those
  hooks; every handler is a function from the state before the click to the state after
  it. The two copies of the component in the source have the same handlers, so one
  definition stands for both; the one place where they differ (when the month effect
  runs) is noted at \<open>ensureMonth\<close>.

  Numbers. Amounts and incomes have the TypeScript type \<open>number\<close>. The definitions are
  polymorphic in a type \<open>'n\<close> of amounts and use only \<open>0\<close>, \<open>+\<close> and \<open>-\<close> on it, in the
  order the source applies them. The one other thing the code does with a number is to
  write it as JSON text and read it back; that is the parameter \<open>jsonNum\<close> of \<open>deepCopy\<close>
  and \<open>saveData\<close>. The type \<open>jsnumber\<close> below has the numbers for which this matters.
  Expense ids come from \<open>Date.now()\<close> and are integers.

  Strings are lists of 8-bit characters.
\<close>

text \<open>\<open>type Expense = { id: number; title: string; amount: number; category: string }\<close>.
  The field \<open>id\<close> is called \<open>idE\<close>, since \<open>id\<close> is the identity function of HOL.\<close>

record 'n Expense =
  idE :: int
  title :: string
  amount :: 'n
  category :: string

text \<open>\<open>type MonthData = { income: number; expenses: Expense[] }\<close>\<close>

record 'n MonthData =
  income :: 'n
  expenses :: "'n Expense list"

text \<open>
  The values a field of type \<open>number\<close> can hold at run time: a finite number (of type
  \<open>'a\<close>), \<open>NaN\<close>, the two infinities, and \<open>null\<close>, which \<open>JSON.parse\<close> leaves in the
  field when the text has \<open>null\<close> there.
\<close>

datatype 'a jsnumber = Finite 'a | NaN | PosInfinity | NegInfinity | Null

fun isFinite :: "'a jsnumber \<Rightarrow> bool" where
  "isFinite (Finite x) = True"
| "isFinite NaN = False"
| "isFinite PosInfinity = False"
| "isFinite NegInfinity = False"
| "isFinite Null = False"

text \<open>
  \<open>JSON.parse(JSON.stringify(x))\<close> for a number \<open>x\<close>: \<open>JSON.stringify\<close> writes a finite
  number as its digits and writes \<open>NaN\<close>, \<open>Infinity\<close>, \<open>-Infinity\<close> and \<open>null\<close> as
  \<open>null\<close>; \<open>JSON.parse\<close> reads the digits back as the number and \<open>null\<close> as \<open>null\<close>.
\<close>

fun jsonNumber :: "'a jsnumber \<Rightarrow> 'a jsnumber" where
  "jsonNumber (Finite x) = Finite x"
| "jsonNumber NaN = Null"
| "jsonNumber PosInfinity = Null"
| "jsonNumber NegInfinity = Null"
| "jsonNumber Null = Null"

text \<open>The literal \<open>0\<close> is the finite number zero.\<close>

instantiation jsnumber :: (zero) zero
begin

definition zero_jsnumber :: "'a jsnumber" where
  "zero_jsnumber = Finite 0"

instance ..

end

text \<open>
  \<open>type Data = Record<string, MonthData>\<close>: a JavaScript object. It is modelled by the
  list of its own properties in insertion order. Reading a property is \<open>map_of\<close>;
  the object spread with one computed key, \<open>{ ...prev, [k]: v }\<close>, is \<open>AList.update k v\<close>:
  an existing key keeps its place and gets the new value, a new key goes to the end.
  An object has every key once, which is \<open>wfData\<close>.
\<close>

type_synonym 'n Data = "(string \<times> 'n MonthData) list"

definition wfData :: "'n Data \<Rightarrow> bool" where
  "wfData d = distinct (map fst d)"

text \<open>The hooks of \<open>App\<close>, in the order of their declaration.\<close>

record 'n AppState =
  data :: "'n Data"
  categories :: "string list"
  selectedMonth :: string
  incomeInput :: 'n
  expTitle :: string
  expAmount :: string
  expCategory :: string
  editingExpId :: "int option"
  newCategoryInput :: string
  editingCategory :: "string option"

section \<open>Helpers for JavaScript idioms\<close>

text \<open>The literal \<open>{ income: 0, expenses: [] }\<close>.\<close>

definition emptyMonth :: "'n::zero MonthData" where
  "emptyMonth = \<lparr>income = 0, expenses = []\<rparr>"

text \<open>\<open>prev[selectedMonth] || { income: 0, expenses: [] }\<close>: a record is an object and
  so truthy; only the missing property takes the right-hand side.\<close>

definition monthOrDefault :: "'n::zero Data \<Rightarrow> string \<Rightarrow> 'n MonthData" where
  "monthOrDefault d m = (case map_of d m of None \<Rightarrow> emptyMonth | Some r \<Rightarrow> r)"

text \<open>\<open>categories[0] || ""\<close>: reading index 0 of an empty array gives \<open>undefined\<close>.\<close>

definition firstCategory :: "string list \<Rightarrow> string" where
  "firstCategory cs = (case cs of [] \<Rightarrow> [] | c # _ \<Rightarrow> (if c = [] then [] else c))"

text \<open>\<open>String.prototype.trim\<close> removes white space at both ends. On 8-bit characters
  the white space of ECMAScript is TAB, LF, VT, FF, CR, SPACE and NBSP.\<close>

definition isWhiteSpace :: "char \<Rightarrow> bool" where
  "isWhiteSpace c = (c \<in> set [CHR 0x09, CHR 0x0A, CHR 0x0B, CHR 0x0C, CHR 0x0D, CHR 0x20, CHR 0xA0])"

definition trim :: "string \<Rightarrow> string" where
  "trim s = rev (dropWhile isWhiteSpace (rev (dropWhile isWhiteSpace s)))"

text \<open>
  \<open>JSON.parse(JSON.stringify(d))\<close> for a dataset \<open>d\<close>. The text has the keys of the object
  in their order, and for every month its income and the array of its expenses, each with
  its four fields; reading it back builds a new object, a new record for every month and a
  new object for every expense. Strings come back as they were. What a number comes back
  as is the parameter \<open>jsonNum\<close> (\<open>jsonNumber\<close> on the type \<open>jsnumber\<close>). The id is an
  integer and comes back as it was.
\<close>

definition copyExpense :: "('n \<Rightarrow> 'n) \<Rightarrow> 'n Expense \<Rightarrow> 'n Expense" where
  "copyExpense jsonNum e =
     \<lparr>idE = idE e, title = title e, amount = jsonNum (amount e), category = category e\<rparr>"

definition copyMonth :: "('n \<Rightarrow> 'n) \<Rightarrow> 'n MonthData \<Rightarrow> 'n MonthData" where
  "copyMonth jsonNum r =
     \<lparr>income = jsonNum (income r), expenses = map (copyExpense jsonNum) (expenses r)\<rparr>"

definition deepCopy :: "('n \<Rightarrow> 'n) \<Rightarrow> 'n Data \<Rightarrow> 'n Data" where
  "deepCopy jsonNum d = map (\<lambda>(m, r). (m, copyMonth jsonNum r)) d"

section \<open>Persistence\<close>

text \<open>
  \<open>localStorage\<close> holds text under the two keys \<open>expense-data\<close> and
  \<open>expense-categories\<close>. A text is represented by the value \<open>JSON.parse\<close> returns for it;
  \<open>None\<close> stands for a key that is absent, empty or holds text that does not parse, the
  cases in which the initialisers fall back to the default.
\<close>

record 'n Storage =
  storedData :: "'n Data option"
  storedCategories :: "string list option"

text \<open>\<open>useEffect(() => localStorage.setItem(STORAGE_DATA, JSON.stringify(data)), [data])\<close>\<close>

definition saveData :: "('n \<Rightarrow> 'n) \<Rightarrow> 'n Data \<Rightarrow> 'n Storage \<Rightarrow> 'n Storage" where
  "saveData jsonNum d st = st\<lparr>storedData := Some (deepCopy jsonNum d)\<rparr>"

text \<open>\<open>useEffect(() => localStorage.setItem(STORAGE_CATS, JSON.stringify(categories)), [categories])\<close>:
  an array of strings is read back as the same array.\<close>

definition saveCategories :: "string list \<Rightarrow> 'n Storage \<Rightarrow> 'n Storage" where
  "saveCategories cs st = st\<lparr>storedCategories := Some cs\<rparr>"

text \<open>The initialiser of \<open>data\<close>; \<open>cur\<close> is the value of \<open>getCurrentMonth()\<close>.\<close>

definition loadData :: "string \<Rightarrow> 'n::zero Storage \<Rightarrow> 'n Data" where
  "loadData cur st = (case storedData st of Some d \<Rightarrow> d | None \<Rightarrow> [(cur, emptyMonth)])"

text \<open>The initialiser of \<open>categories\<close>.\<close>

definition loadCategories :: "'n Storage \<Rightarrow> string list" where
  "loadCategories st =
     (case storedCategories st of
        Some cs \<Rightarrow> cs
      | None \<Rightarrow> [''Food'', ''Travel'', ''Shopping'', ''Bills''])"

text \<open>A dataset all of whose incomes and amounts are finite numbers.\<close>

definition allFinite :: "'a jsnumber Data \<Rightarrow> bool" where
  "allFinite d =
     list_all (\<lambda>(m, r). isFinite (income r) \<and> list_all (\<lambda>e. isFinite (amount e)) (expenses r)) d"

section \<open>Month materialization\<close>

text \<open>
  The body of the effect
  \<^verbatim>\<open>if (!data[selectedMonth]) setData((prev) => ({ ...prev, [selectedMonth]: { income: 0, expenses: [] } }))\<close>.
  The first copy of the component runs it once, after the first render; the second copy
  runs it after every render in which \<open>selectedMonth\<close> or \<open>data\<close> changed.
\<close>

definition ensureMonth :: "'n::zero AppState \<Rightarrow> 'n AppState" where
  "ensureMonth s =
     (if map_of (data s) (selectedMonth s) = None
      then s\<lparr>data := AList.update (selectedMonth s) emptyMonth (data s)\<rparr>
      else s)"

text \<open>\<open>onChange={(e) => setSelectedMonth(e.target.value)}\<close> of the month selector,
  followed by the effect that depends on \<open>selectedMonth\<close>.\<close>

definition selectMonth :: "string \<Rightarrow> 'n::zero AppState \<Rightarrow> 'n AppState" where
  "selectMonth m s = ensureMonth (s\<lparr>selectedMonth := m\<rparr>)"

section \<open>Handlers\<close>

text \<open>\<open>const monthExpenses = data[selectedMonth]?.expenses || []\<close>\<close>

definition monthExpenses :: "'n AppState \<Rightarrow> 'n Expense list" where
  "monthExpenses s = (case map_of (data s) (selectedMonth s) of None \<Rightarrow> [] | Some r \<Rightarrow> expenses r)"

text \<open>\<open>handleSaveIncome\<close>. \<open>incomeInput\<close> is a number already, so \<open>Number(incomeInput)\<close>
  is \<open>incomeInput\<close>.\<close>

definition handleSaveIncome :: "'n::zero AppState \<Rightarrow> 'n AppState" where
  "handleSaveIncome s =
     s\<lparr>data := AList.update (selectedMonth s)
                 ((monthOrDefault (data s) (selectedMonth s))\<lparr>income := incomeInput s\<rparr>)
                 (data s)\<rparr>"

text \<open>
  \<open>handleAddOrUpdateExpense\<close>. The two things it takes from the platform are parameters:
  \<open>Number\<close>, the coercion of the amount field's text to a number, and \<open>now\<close>, the value
  of \<open>Date.now()\<close>. The three inputs are strings, and a string is falsy exactly when it is
  empty. \<open>if (editingExpId)\<close> is a truthiness test: \<open>null\<close> and \<open>0\<close> take the else branch.
\<close>

definition truthyId :: "int option \<Rightarrow> bool" where
  "truthyId i = (case i of None \<Rightarrow> False | Some n \<Rightarrow> n \<noteq> 0)"

definition handleAddOrUpdateExpense ::
  "(string \<Rightarrow> 'n) \<Rightarrow> int \<Rightarrow> 'n::zero AppState \<Rightarrow> 'n AppState" where
  "handleAddOrUpdateExpense Number now s =
     (if expTitle s = [] \<or> expAmount s = [] \<or> expCategory s = [] then s
      else
        let month = monthOrDefault (data s) (selectedMonth s);
            exps = expenses month;
            data' =
              (if truthyId (editingExpId s)
               then
                 let updated = map (\<lambda>e. if Some (idE e) = editingExpId s
                                         then e\<lparr>title := expTitle s, amount := Number (expAmount s),
                                                category := expCategory s\<rparr>
                                         else e) exps
                 in AList.update (selectedMonth s) (month\<lparr>expenses := updated\<rparr>) (data s)
               else
                 let newExp = \<lparr>idE = now, title = expTitle s, amount = Number (expAmount s),
                               category = expCategory s\<rparr>
                 in AList.update (selectedMonth s) (month\<lparr>expenses := exps @ [newExp]\<rparr>) (data s))
        in s\<lparr>data := data', expTitle := [], expAmount := [],
              expCategory := firstCategory (categories s), editingExpId := None\<rparr>)"

text \<open>\<open>handleEditExpense\<close>; \<open>toString\<close> of the amount is the parameter \<open>show\<close>.\<close>

definition handleEditExpense :: "('n \<Rightarrow> string) \<Rightarrow> 'n Expense \<Rightarrow> 'n AppState \<Rightarrow> 'n AppState" where
  "handleEditExpense show e s =
     s\<lparr>expTitle := title e, expAmount := show (amount e), expCategory := category e,
       editingExpId := Some (idE e)\<rparr>"

definition handleDeleteExpense :: "int \<Rightarrow> 'n::zero AppState \<Rightarrow> 'n AppState" where
  "handleDeleteExpense i s =
     (let month = monthOrDefault (data s) (selectedMonth s)
      in s\<lparr>data := AList.update (selectedMonth s)
                      (month\<lparr>expenses := filter (\<lambda>e. idE e \<noteq> i) (expenses month)\<rparr>)
                      (data s)\<rparr>)"

text \<open>The cascade of a rename inside one month:
  \<^verbatim>\<open>copy[m].expenses = (copy[m].expenses || []).map((ex) => ex.category === editingCategory ? { ...ex, category: v } : ex)\<close>\<close>

definition renameIn :: "string \<Rightarrow> string \<Rightarrow> 'n MonthData \<Rightarrow> 'n MonthData" where
  "renameIn old v r =
     r\<lparr>expenses := map (\<lambda>ex. if category ex = old then ex\<lparr>category := v\<rparr> else ex) (expenses r)\<rparr>"

text \<open>
  The category handlers can call \<open>alert\<close>. They return the message shown, if any, with
  the state after the handler.
\<close>

definition handleAddCategory :: "'n AppState \<Rightarrow> string option \<times> 'n AppState" where
  "handleAddCategory s =
     (let v = trim (newCategoryInput s) in
      if v = [] then (None, s)
      else if v \<in> set (categories s) then (Some ''Category already exists'', s)
      else (None, s\<lparr>categories := categories s @ [v], newCategoryInput := []\<rparr>))"

definition startEditCategory :: "string \<Rightarrow> 'n AppState \<Rightarrow> 'n AppState" where
  "startEditCategory cat s = s\<lparr>editingCategory := Some cat, newCategoryInput := cat\<rparr>"

text \<open>
  \<open>handleSaveEditedCategory\<close>. \<open>!editingCategory\<close> holds for \<open>null\<close> and for the empty
  string; both return without a message, as the empty trimmed input does. The dataset is
  rewritten from its copy \<open>JSON.parse(JSON.stringify(prev))\<close>, so the handler has the
  parameter \<open>jsonNum\<close> of \<open>deepCopy\<close>.
\<close>

definition handleSaveEditedCategory ::
  "('n \<Rightarrow> 'n) \<Rightarrow> 'n AppState \<Rightarrow> string option \<times> 'n AppState" where
  "handleSaveEditedCategory jsonNum s =
     (let v = trim (newCategoryInput s) in
      case editingCategory s of
        None \<Rightarrow> (None, s)
      | Some old \<Rightarrow>
          if v = [] \<or> old = [] then (None, s)
          else if v \<in> set (categories s) \<and> v \<noteq> old
          then (Some ''Category name already used'', s)
          else (None, s\<lparr>categories := map (\<lambda>c. if c = old then v else c) (categories s),
                        data := map (\<lambda>(m, r). (m, renameIn old v r)) (deepCopy jsonNum (data s)),
                        editingCategory := None,
                        newCategoryInput := []\<rparr>))"

text \<open>\<open>Object.values(data).some((m) => (m.expenses || []).some((e) => e.category === cat))\<close>\<close>

definition used :: "'n Data \<Rightarrow> string \<Rightarrow> bool" where
  "used d cat = list_ex (\<lambda>r. list_ex (\<lambda>e. category e = cat) (expenses r)) (map snd d)"

definition handleDeleteCategory :: "string \<Rightarrow> 'n AppState \<Rightarrow> string option \<times> 'n AppState" where
  "handleDeleteCategory cat s =
     (if used (data s) cat then (Some ''Cannot delete category with existing expenses.'', s)
      else
        let s' = s\<lparr>categories := filter (\<lambda>c. c \<noteq> cat) (categories s)\<rparr>
        in (None, if editingCategory s = Some cat
                  then s'\<lparr>editingCategory := None, newCategoryInput := []\<rparr>
                  else s'))"

section \<open>Derived values\<close>




record 'n Bucket =
  bucketName :: string
  bucketValue :: 'n

definition chartData :: "'n::{zero,plus} AppState \<Rightarrow> 'n Bucket list" where
  "chartData s =
     (let ex = (case map_of (data s) (selectedMonth s) of None \<Rightarrow> [] | Some r \<Rightarrow> expenses r)
      in map (\<lambda>cat. \<lparr>bucketName = cat,
                     bucketValue = foldl (\<lambda>acc e. acc + amount e) 0
                                     (filter (\<lambda>e. category e = cat) ex)\<rparr>)
             (categories s))"

section \<open>An example state\<close>

text \<open>
  Two months with expenses in the category Food in both, and the default category list.
  Amounts are integers here.
\<close>

definition demoData :: "int Data" where
  "demoData =
     [(''2024-01'', \<lparr>income = 5000, expenses =
         [\<lparr>idE = 1, title = ''Lunch'', amount = 1200, category = ''Food''\<rparr>,
          \<lparr>idE = 2, title = ''Bus'', amount = 300, category = ''Travel''\<rparr>]\<rparr>),
      (''2024-02'', \<lparr>income = 100, expenses =
         [\<lparr>idE = 3, title = ''Dinner'', amount = 50, category = ''Food''\<rparr>]\<rparr>)]"

definition demoState :: "int AppState" where
  "demoState =
     \<lparr>data = demoData,
      categories = [''Food'', ''Travel'', ''Shopping'', ''Bills''],
      selectedMonth = ''2024-01'',
      incomeInput = 5000,
      expTitle = [],
      expAmount = [],
      expCategory = ''Food'',
      editingExpId = None,
      newCategoryInput = [],
      editingCategory = None\<rparr>"

text \<open>
  States over \<open>int jsnumber\<close>. In \<open>jsData\<close> an amount is infinite and an income is
  \<open>NaN\<close>; in \<open>finData\<close> every number is finite. In \<open>jsState\<close> the category Food is being
  renamed to Groceries.
\<close>

definition jsData :: "int jsnumber Data" where
  "jsData =
     [(''2024-01'', \<lparr>income = Finite 5000, expenses =
         [\<lparr>idE = 1, title = ''Lunch'', amount = Finite 1200, category = ''Food''\<rparr>,
          \<lparr>idE = 2, title = ''Jet'', amount = PosInfinity, category = ''Travel''\<rparr>]\<rparr>),
      (''2024-02'', \<lparr>income = NaN, expenses =
         [\<lparr>idE = 3, title = ''Dinner'', amount = Finite 50, category = ''Food''\<rparr>]\<rparr>)]"

definition finData :: "int jsnumber Data" where
  "finData =
     [(''2024-01'', \<lparr>income = Finite 5000, expenses =
         [\<lparr>idE = 1, title = ''Lunch'', amount = Finite 1200, category = ''Food''\<rparr>,
          \<lparr>idE = 2, title = ''Bus'', amount = Finite 300, category = ''Travel''\<rparr>]\<rparr>),
      (''2024-02'', \<lparr>income = Finite 100, expenses =
         [\<lparr>idE = 3, title = ''Dinner'', amount = Finite 50, category = ''Food''\<rparr>]\<rparr>)]"


definition emptyStorage :: "int jsnumber Storage" where
  "emptyStorage = \<lparr>storedData = None, storedCategories = None\<rparr>"

section \<open>Auxiliary facts\<close>

lemma foldl_amount_sum:
  fixes a :: "'n::monoid_add"
  shows "foldl (\<lambda>acc e. acc + amount e) a es = a + sum_list (map amount es)"
  by (induction es arbitrary: a) (simp_all add: add.assoc)

lemma jsonNumber_cases: "jsonNumber x = (if isFinite x then x else Null)"
  by (cases x) simp_all

lemma copyExpense_finite: "isFinite (amount e) \<Longrightarrow> copyExpense jsonNumber e = e"
  by (simp add: copyExpense_def jsonNumber_cases)

lemma copyMonth_finite:
  assumes "isFinite (income r)" and "list_all (\<lambda>e. isFinite (amount e)) (expenses r)"
  shows "copyMonth jsonNumber r = r"
proof -
  have "map (copyExpense jsonNumber) (expenses r) = expenses r"
    using assms(2) by (simp add: list_all_iff map_idI copyExpense_finite)
  with assms(1) show ?thesis
    by (simp add: copyMonth_def jsonNumber_cases)
qed

lemma deepCopy_finite: "allFinite d \<Longrightarrow> deepCopy jsonNumber d = d"
  by (induction d) (auto simp: allFinite_def deepCopy_def copyMonth_finite)

lemma used_iff_entry:
  "used d cat \<longleftrightarrow> (\<exists>m r e. (m, r) \<in> set d \<and> e \<in> set (expenses r) \<and> category e = cat)"
  by (force simp: used_def list_ex_iff)

lemma wfData_entry:
  "wfData d \<Longrightarrow> (m, r) \<in> set d \<longleftrightarrow> map_of d m = Some r"
  by (auto simp: wfData_def dest: map_of_SomeD)

lemma update_fresh: "map_of d k = None \<Longrightarrow> AList.update k v d = d @ [(k, v)]"
  by (induction d) (auto split: if_splits)

lemma wfData_update: "wfData d \<Longrightarrow> wfData (AList.update k v d)"
  by (simp add: wfData_def distinct_update)

section \<open>The claims\<close>

text \<open>
  Claim C1. Selecting a month that has no entry in the dataset appends the entry
  \<open>{income: 0, expenses: []}\<close> for it and leaves every other month as it was; selecting a
  month that has an entry changes nothing in the dataset, so selecting twice is the same
  as selecting once. The effect run on its own (as after the first render, in both copies
  of the component) is the selection of the month already selected.
\<close>

theorem selectMonth_materializes:
  fixes s :: "'n::zero AppState"
  shows "(map_of (data s) m = None \<longrightarrow>
            data (selectMonth m s) = data s @ [(m, \<lparr>income = 0, expenses = []\<rparr>)] \<and>
            map_of (data (selectMonth m s)) m = Some \<lparr>income = 0, expenses = []\<rparr> \<and>
            (\<forall>k. k \<noteq> m \<longrightarrow> map_of (data (selectMonth m s)) k = map_of (data s) k)) \<and>
         (map_of (data s) m \<noteq> None \<longrightarrow> data (selectMonth m s) = data s) \<and>
         selectMonth m (selectMonth m s) = selectMonth m s \<and>
         ensureMonth s = selectMonth (selectedMonth s) s"
proof -
  have a: "map_of (data s) m = None \<Longrightarrow>
      data (selectMonth m s) = data s @ [(m, \<lparr>income = 0, expenses = []\<rparr>)]"
    by (simp add: selectMonth_def ensureMonth_def emptyMonth_def update_fresh)
  have b: "map_of (data s) m = None \<Longrightarrow>
      map_of (data (selectMonth m s)) = (map_of (data s))(m \<mapsto> \<lparr>income = 0, expenses = []\<rparr>)"
    by (simp add: selectMonth_def ensureMonth_def emptyMonth_def update_conv')
  have c: "map_of (data s) m \<noteq> None \<Longrightarrow> data (selectMonth m s) = data s"
    by (auto simp: selectMonth_def ensureMonth_def)
  have d: "selectMonth m (selectMonth m s) = selectMonth m s"
    by (simp add: selectMonth_def ensureMonth_def update_conv')
  have e: "ensureMonth s = selectMonth (selectedMonth s) s"
    by (simp add: selectMonth_def)
  from a b c d e show ?thesis by simp
qed

theorem selectMonth_materializes_witness:
  "map_of (data demoState) ''2024-03'' = None \<and>
   data (selectMonth ''2024-03'' demoState) = demoData @ [(''2024-03'', \<lparr>income = 0, expenses = []\<rparr>)] \<and>
   map_of (data demoState) ''2024-02'' \<noteq> None \<and>
   data (selectMonth ''2024-02'' demoState) = demoData"
  using selectMonth_materializes [where s = demoState and m = "''2024-03''"]
    selectMonth_materializes [where s = demoState and m = "''2024-02''"]
  by (simp add: demoState_def demoData_def)




text \<open>
  Claim C3. Deleting a category shows the conflict message exactly when some expense of
  some month has that category, and then the state is unchanged. Otherwise the dataset
  is unchanged, the name is filtered out of the category list, and the edit target and
  the input field are cleared if the deleted name was being edited (and kept if not).
\<close>

theorem delete_category_guard:
  assumes "wfData (data s)"
  shows "(fst (handleDeleteCategory cat s) \<noteq> None \<longleftrightarrow>
            (\<exists>m r e. map_of (data s) m = Some r \<and> e \<in> set (expenses r) \<and> category e = cat)) \<and>
         (fst (handleDeleteCategory cat s) \<noteq> None \<longrightarrow> snd (handleDeleteCategory cat s) = s) \<and>
         (fst (handleDeleteCategory cat s) = None \<longrightarrow>
            data (snd (handleDeleteCategory cat s)) = data s \<and>
            categories (snd (handleDeleteCategory cat s)) = filter (\<lambda>c. c \<noteq> cat) (categories s) \<and>
            cat \<notin> set (categories (snd (handleDeleteCategory cat s))) \<and>
            (editingCategory s = Some cat \<longrightarrow>
               editingCategory (snd (handleDeleteCategory cat s)) = None \<and>
               newCategoryInput (snd (handleDeleteCategory cat s)) = []) \<and>
            (editingCategory s \<noteq> Some cat \<longrightarrow>
               editingCategory (snd (handleDeleteCategory cat s)) = editingCategory s \<and>
               newCategoryInput (snd (handleDeleteCategory cat s)) = newCategoryInput s))"
proof -
  have u: "used (data s) cat \<longleftrightarrow>
      (\<exists>m r e. map_of (data s) m = Some r \<and> e \<in> set (expenses r) \<and> category e = cat)"
    using assms by (simp add: used_iff_entry wfData_entry)
  show ?thesis
    unfolding u[symmetric] by (simp add: handleDeleteCategory_def Let_def)
qed

theorem delete_category_guard_witness:
  "wfData (data demoState) \<and>
   handleDeleteCategory ''Food'' demoState =
     (Some ''Cannot delete category with existing expenses.'', demoState) \<and>
   fst (handleDeleteCategory ''Shopping'' demoState) = None \<and>
   categories (snd (handleDeleteCategory ''Shopping'' demoState)) = [''Food'', ''Travel'', ''Bills'']"
  using delete_category_guard [where s = demoState and cat = "''Food''"]
    delete_category_guard [where s = demoState and cat = "''Shopping''"]
  by (simp add: demoState_def demoData_def wfData_def handleDeleteCategory_def used_def)

text \<open>
  Claim C4. The chart has one bucket for each entry of the category list, in the order
  of the list. When the dataset has the record \<open>r\<close> under the selected month, the value of
  a bucket is the sum of the amounts of the expenses of \<open>r\<close> in that category, and a
  category without expenses in \<open>r\<close> has a bucket of value \<open>0\<close>; when the dataset has no
  record under the selected month, every bucket has value \<open>0\<close>.
\<close>

theorem chart_buckets:
  fixes s :: "'n::monoid_add AppState"
  shows "map bucketName (chartData s) = categories s \<and>
         (\<forall>r. map_of (data s) (selectedMonth s) = Some r \<longrightarrow>
            (\<forall>i<length (categories s).
               bucketValue (chartData s ! i) =
                 sum_list (map amount (filter (\<lambda>e. category e = categories s ! i) (expenses r))) \<and>
               ((\<forall>e\<in>set (expenses r). category e \<noteq> categories s ! i) \<longrightarrow>
                  chartData s ! i = \<lparr>bucketName = categories s ! i, bucketValue = 0\<rparr>))) \<and>
         (map_of (data s) (selectedMonth s) = None \<longrightarrow>
            (\<forall>i<length (categories s).
               chartData s ! i = \<lparr>bucketName = categories s ! i, bucketValue = 0\<rparr>))"
proof -
  have names: "map bucketName (chartData s) = categories s"
    by (simp add: chartData_def Let_def comp_def)
  have some: "bucketValue (chartData s ! i) =
        sum_list (map amount (filter (\<lambda>e. category e = categories s ! i) (expenses r))) \<and>
      ((\<forall>e\<in>set (expenses r). category e \<noteq> categories s ! i) \<longrightarrow>
         chartData s ! i = \<lparr>bucketName = categories s ! i, bucketValue = 0\<rparr>)"
    if "map_of (data s) (selectedMonth s) = Some r" and "i < length (categories s)" for r i
    using that by (simp add: chartData_def Let_def foldl_amount_sum filter_empty_conv[THEN iffD2])
  have none: "chartData s ! i = \<lparr>bucketName = categories s ! i, bucketValue = 0\<rparr>"
    if "map_of (data s) (selectedMonth s) = None" and "i < length (categories s)" for i
    using that by (simp add: chartData_def Let_def)
  from names some none show ?thesis by blast
qed

theorem chart_buckets_witness:
  "map_of (data demoState) ''2024-01'' = Some (snd (demoData ! 0)) \<and>
   chartData demoState =
     [\<lparr>bucketName = ''Food'', bucketValue = 1200\<rparr>, \<lparr>bucketName = ''Travel'', bucketValue = 300\<rparr>,
      \<lparr>bucketName = ''Shopping'', bucketValue = 0\<rparr>, \<lparr>bucketName = ''Bills'', bucketValue = 0\<rparr>] \<and>
   map_of (data demoState) ''2024-02'' = Some (snd (demoData ! 1)) \<and>
   chartData (demoState\<lparr>selectedMonth := ''2024-02''\<rparr>) =
     [\<lparr>bucketName = ''Food'', bucketValue = 50\<rparr>, \<lparr>bucketName = ''Travel'', bucketValue = 0\<rparr>,
      \<lparr>bucketName = ''Shopping'', bucketValue = 0\<rparr>, \<lparr>bucketName = ''Bills'', bucketValue = 0\<rparr>] \<and>
   map_of (data demoState) ''2024-03'' = None \<and>
   chartData (demoState\<lparr>selectedMonth := ''2024-03''\<rparr>) =
     [\<lparr>bucketName = ''Food'', bucketValue = 0\<rparr>, \<lparr>bucketName = ''Travel'', bucketValue = 0\<rparr>,
      \<lparr>bucketName = ''Shopping'', bucketValue = 0\<rparr>, \<lparr>bucketName = ''Bills'', bucketValue = 0\<rparr>]"
  using chart_buckets [where s = demoState]
    chart_buckets [where s = "demoState\<lparr>selectedMonth := ''2024-02''\<rparr>"]
    chart_buckets [where s = "demoState\<lparr>selectedMonth := ''2024-03''\<rparr>"]
  by (simp add: demoState_def demoData_def chartData_def)



text \<open>
  Claim C6, as the code has it. Saving the dataset and the category list and loading them
  again gives the same category list, and a dataset with the same month keys in the same
  order, in which every month has its expenses in the same order, each with the same id,
  title and category; every income and every amount that is a finite number is the same,
  and one that is \<open>NaN\<close> or infinite is \<open>null\<close>. So a dataset whose numbers are all finite is
  loaded as it was saved.
\<close>

theorem persistence_round_trip:
  fixes d :: "'a::zero jsnumber Data"
  shows "loadCategories (saveCategories cs (saveData jsonNumber d st)) = cs \<and>
         length (loadData cur (saveCategories cs (saveData jsonNumber d st))) = length d \<and>
         (\<forall>k<length d.
            fst (loadData cur (saveCategories cs (saveData jsonNumber d st)) ! k) = fst (d ! k) \<and>
            income (snd (loadData cur (saveCategories cs (saveData jsonNumber d st)) ! k)) =
              (if isFinite (income (snd (d ! k))) then income (snd (d ! k)) else Null) \<and>
            length (expenses (snd (loadData cur (saveCategories cs (saveData jsonNumber d st)) ! k))) =
              length (expenses (snd (d ! k))) \<and>
            (\<forall>j<length (expenses (snd (d ! k))).
               idE (expenses (snd (loadData cur (saveCategories cs (saveData jsonNumber d st)) ! k)) ! j) =
                 idE (expenses (snd (d ! k)) ! j) \<and>
               title (expenses (snd (loadData cur (saveCategories cs (saveData jsonNumber d st)) ! k)) ! j) =
                 title (expenses (snd (d ! k)) ! j) \<and>
               amount (expenses (snd (loadData cur (saveCategories cs (saveData jsonNumber d st)) ! k)) ! j) =
                 (if isFinite (amount (expenses (snd (d ! k)) ! j))
                  then amount (expenses (snd (d ! k)) ! j) else Null) \<and>
               category (expenses (snd (loadData cur (saveCategories cs (saveData jsonNumber d st)) ! k)) ! j) =
                 category (expenses (snd (d ! k)) ! j))) \<and>
         (allFinite d \<longrightarrow> loadData cur (saveCategories cs (saveData jsonNumber d st)) = d)"
proof -
  have cats: "loadCategories (saveCategories cs (saveData jsonNumber d st)) = cs"
    by (simp add: loadCategories_def saveCategories_def)
  have load: "loadData cur (saveCategories cs (saveData jsonNumber d st)) = deepCopy jsonNumber d"
    by (simp add: loadData_def saveCategories_def saveData_def)
  show ?thesis
    unfolding load cats
    by (simp add: deepCopy_finite)
       (simp add: deepCopy_def copyMonth_def copyExpense_def case_prod_beta jsonNumber_cases)
qed

theorem persistence_round_trip_witness:
  "allFinite finData \<and>
   loadData ''2024-03'' (saveCategories [''Food'', ''Rent''] (saveData jsonNumber finData emptyStorage)) =
     finData \<and>
   loadCategories (saveCategories [''Food'', ''Rent''] (saveData jsonNumber finData emptyStorage)) =
     [''Food'', ''Rent''] \<and>
   map (\<lambda>(m, r). (m, income r, map amount (expenses r)))
       (loadData ''2024-03'' (saveCategories [''Food'', ''Rent''] (saveData jsonNumber jsData emptyStorage))) =
     [(''2024-01'', Finite 5000, [Finite 1200, Null]), (''2024-02'', Null, [Finite 50])]"
  using persistence_round_trip [where d = finData and cs = "[''Food'', ''Rent'']"
      and st = emptyStorage and cur = "''2024-03''"]
    persistence_round_trip [where d = jsData and cs = "[''Food'', ''Rent'']"
      and st = emptyStorage and cur = "''2024-03''"]
  by (simp add: finData_def jsData_def allFinite_def emptyStorage_def loadData_def
      saveCategories_def saveData_def loadCategories_def deepCopy_def copyMonth_def copyExpense_def)

text \<open>
  The claim as written fails where a number is not finite: \<open>jsData\<close>, saved and loaded, is
  not \<open>jsData\<close>; the amount \<open>Infinity\<close> comes back as \<open>null\<close>.
\<close>

theorem persistence_round_trip_counterexample:
  "loadData ''2024-03'' (saveCategories [''Food'', ''Rent''] (saveData jsonNumber jsData emptyStorage))
     \<noteq> jsData \<and>
   amount (expenses (snd (jsData ! 0)) ! 1) = PosInfinity \<and>
   amount (expenses (snd (loadData ''2024-03''
      (saveCategories [''Food'', ''Rent''] (saveData jsonNumber jsData emptyStorage)) ! 0)) ! 1) = Null"
  by (simp add: jsData_def emptyStorage_def loadData_def saveCategories_def saveData_def
      deepCopy_def copyMonth_def copyExpense_def)

text \<open>
  Claim C7. If the names in the category list are pairwise distinct, they are so after
  adding, after renaming and after deleting a category, whatever the outcome of the
  handler.
\<close>

theorem category_names_stay_distinct:
  assumes "distinct (categories s)"
  shows "distinct (categories (snd (handleAddCategory s))) \<and>
         distinct (categories (snd (handleSaveEditedCategory jsonNum s))) \<and>
         distinct (categories (snd (handleDeleteCategory cat s)))"
proof (intro conjI)
  show "distinct (categories (snd (handleAddCategory s)))"
    using assms by (simp add: handleAddCategory_def Let_def)
  show "distinct (categories (snd (handleDeleteCategory cat s)))"
    using assms by (simp add: handleDeleteCategory_def Let_def)
  show "distinct (categories (snd (handleSaveEditedCategory jsonNum s)))"
  proof (cases "editingCategory s")
    case None
    then show ?thesis using assms by (simp add: handleSaveEditedCategory_def Let_def)
  next
    case (Some old)
    let ?v = "trim (newCategoryInput s)"
    have "distinct (map (\<lambda>c. if c = old then ?v else c) (categories s))"
      if "?v \<notin> set (categories s) \<or> ?v = old"
      using that assms by (auto simp: distinct_map inj_on_def)
    then show ?thesis
      using Some assms by (auto simp: handleSaveEditedCategory_def Let_def)
  qed
qed

theorem category_names_stay_distinct_witness:
  "distinct (categories demoState) \<and>
   categories (snd (handleAddCategory (demoState\<lparr>newCategoryInput := '' Rent ''\<rparr>))) =
     [''Food'', ''Travel'', ''Shopping'', ''Bills'', ''Rent''] \<and>
   distinct (categories (snd (handleAddCategory (demoState\<lparr>newCategoryInput := '' Rent ''\<rparr>))))"
  using category_names_stay_distinct [where s = "demoState\<lparr>newCategoryInput := '' Rent ''\<rparr>" and cat = "''Food''"]
  by (simp add: demoState_def handleAddCategory_def trim_def isWhiteSpace_def Let_def)

text \<open>
  Claim C8. With the three inputs filled in and an edit target \<open>i\<close> set (\<open>editingExpId\<close>
  truthy), the selected month has as many expenses as before; at every position, an
  expense with id \<open>i\<close> is replaced by the expense with the same id and the title, amount
  and category of the form, and an expense with another id is unchanged. The months keep
  their order, the selected month keeps its income, and the other months are unchanged.
\<close>

theorem edit_updates_in_place:
  fixes s :: "'n::zero AppState"
  assumes inputs: "expTitle s \<noteq> []" "expAmount s \<noteq> []" "expCategory s \<noteq> []"
    and target: "editingExpId s = Some i" "i \<noteq> 0"
  shows "selectedMonth (handleAddOrUpdateExpense Number now s) = selectedMonth s \<and>
         length (monthExpenses (handleAddOrUpdateExpense Number now s)) = length (monthExpenses s) \<and>
         (\<forall>k<length (monthExpenses s).
            monthExpenses (handleAddOrUpdateExpense Number now s) ! k =
              (if idE (monthExpenses s ! k) = i
               then \<lparr>idE = i, title = expTitle s, amount = Number (expAmount s),
                     category = expCategory s\<rparr>
               else monthExpenses s ! k)) \<and>
         map fst (data (handleAddOrUpdateExpense Number now s)) =
           (if selectedMonth s \<in> set (map fst (data s)) then map fst (data s)
            else map fst (data s) @ [selectedMonth s]) \<and>
         (\<forall>r. map_of (data s) (selectedMonth s) = Some r \<longrightarrow>
            (\<exists>r'. map_of (data (handleAddOrUpdateExpense Number now s)) (selectedMonth s) = Some r' \<and>
                  income r' = income r)) \<and>
         (\<forall>m. m \<noteq> selectedMonth s \<longrightarrow>
            map_of (data (handleAddOrUpdateExpense Number now s)) m = map_of (data s) m)"
proof -
  let ?month = "monthOrDefault (data s) (selectedMonth s)"
  let ?upd = "\<lambda>e. if Some (idE e) = editingExpId s
                  then e\<lparr>title := expTitle s, amount := Number (expAmount s), category := expCategory s\<rparr>
                  else e"
  let ?s' = "handleAddOrUpdateExpense Number now s"
  have d: "data ?s' = AList.update (selectedMonth s) (?month\<lparr>expenses := map ?upd (expenses ?month)\<rparr>) (data s)"
    and m: "selectedMonth ?s' = selectedMonth s"
    using inputs target by (simp_all add: handleAddOrUpdateExpense_def Let_def truthyId_def)
  have ex: "monthExpenses s = expenses ?month"
    by (simp add: monthExpenses_def monthOrDefault_def emptyMonth_def split: option.splits)
  have ex': "monthExpenses ?s' = map ?upd (expenses ?month)"
    by (simp add: monthExpenses_def m d update_conv')
  show ?thesis
    unfolding ex ex' m d
    by (auto simp: update_conv' update_keys target monthOrDefault_def)
qed

theorem edit_updates_in_place_witness:
  "monthExpenses (handleAddOrUpdateExpense (\<lambda>t. 900) 1700000000000
      (demoState\<lparr>expTitle := ''Brunch'', expAmount := ''900'', expCategory := ''Bills'',
                 editingExpId := Some 1\<rparr>)) =
     [\<lparr>idE = 1, title = ''Brunch'', amount = 900, category = ''Bills''\<rparr>,
      \<lparr>idE = 2, title = ''Bus'', amount = 300, category = ''Travel''\<rparr>]"
  using edit_updates_in_place [where s = "demoState\<lparr>expTitle := ''Brunch'', expAmount := ''900'',
      expCategory := ''Bills'', editingExpId := Some 1\<rparr>" and i = 1 and Number = "\<lambda>t. 900"
      and now = 1700000000000]
  by (simp add: demoState_def demoData_def handleAddOrUpdateExpense_def monthExpenses_def
      monthOrDefault_def truthyId_def)

text \<open>
  Claim C9. If the title, the amount or the category of the form is empty, submitting
  the expense changes nothing: the state after the handler is the state before it.
\<close>

theorem submit_guard_noop:
  "expTitle s = [] \<or> expAmount s = [] \<or> expCategory s = [] \<Longrightarrow>
   handleAddOrUpdateExpense Number now s = s"
  by (simp add: handleAddOrUpdateExpense_def)

theorem submit_guard_noop_witness:
  "expTitle demoState = [] \<and> handleAddOrUpdateExpense (\<lambda>t. 7) 1700000000000 demoState = demoState"
  using submit_guard_noop [where s = demoState and Number = "\<lambda>t. 7" and now = 1700000000000]
  by (simp add: demoState_def)

text \<open>
  Claim C10. When the selected month has no record, deleting an expense (whatever the id)
  appends the record \<open>{income: 0, expenses: []}\<close> for it, and saving the income appends the
  record with the income of the input field and no expenses; in both cases the dataset
  differs from the one before and every other month reads as before.
\<close>

theorem missing_month_created:
  fixes s :: "'n::zero AppState"
  assumes "map_of (data s) (selectedMonth s) = None"
  shows "data (handleDeleteExpense i s) = data s @ [(selectedMonth s, \<lparr>income = 0, expenses = []\<rparr>)] \<and>
         data (handleSaveIncome s) = data s @ [(selectedMonth s, \<lparr>income = incomeInput s, expenses = []\<rparr>)] \<and>
         data (handleDeleteExpense i s) \<noteq> data s \<and> data (handleSaveIncome s) \<noteq> data s \<and>
         (\<forall>k. k \<noteq> selectedMonth s \<longrightarrow>
            map_of (data (handleDeleteExpense i s)) k = map_of (data s) k \<and>
            map_of (data (handleSaveIncome s)) k = map_of (data s) k)"
proof -
  let ?m = "selectedMonth s"
  have del: "data (handleDeleteExpense i s) = AList.update ?m \<lparr>income = 0, expenses = []\<rparr> (data s)"
    using assms by (simp add: handleDeleteExpense_def monthOrDefault_def emptyMonth_def Let_def)
  have inc: "data (handleSaveIncome s) =
      AList.update ?m \<lparr>income = incomeInput s, expenses = []\<rparr> (data s)"
    using assms by (simp add: handleSaveIncome_def monthOrDefault_def emptyMonth_def)
  have "\<forall>k. k \<noteq> ?m \<longrightarrow>
            map_of (data (handleDeleteExpense i s)) k = map_of (data s) k \<and>
            map_of (data (handleSaveIncome s)) k = map_of (data s) k"
    unfolding del inc by (simp add: update_conv')
  moreover have "data (handleDeleteExpense i s) = data s @ [(?m, \<lparr>income = 0, expenses = []\<rparr>)]"
    unfolding del using assms by (rule update_fresh)
  moreover have "data (handleSaveIncome s) =
      data s @ [(?m, \<lparr>income = incomeInput s, expenses = []\<rparr>)]"
    unfolding inc using assms by (rule update_fresh)
  ultimately show ?thesis by simp
qed

theorem missing_month_created_witness:
  "map_of (data (demoState\<lparr>selectedMonth := ''2024-03''\<rparr>)) ''2024-03'' = None \<and>
   data (handleDeleteExpense 1 (demoState\<lparr>selectedMonth := ''2024-03''\<rparr>)) =
     demoData @ [(''2024-03'', \<lparr>income = 0, expenses = []\<rparr>)] \<and>
   data (handleSaveIncome (demoState\<lparr>selectedMonth := ''2024-03''\<rparr>)) =
     demoData @ [(''2024-03'', \<lparr>income = 5000, expenses = []\<rparr>)]"
  using missing_month_created [where s = "demoState\<lparr>selectedMonth := ''2024-03''\<rparr>" and i = 1]
  by (simp add: demoState_def demoData_def)

end
